theory Spec2Isabelle
  imports Main "HOL-Library.AList"
begin

section \<open>The SAML2 authentication backend of djangosaml2\<close>

text \<open>
  A shallow embedding of \<^verbatim>\<open>djangosaml2/backends.py\<close> (class \<^verbatim>\<open>Saml2Backend\<close>):
  \<^verbatim>\<open>authenticate\<close>, \<^verbatim>\<open>clean_username\<close>, \<^verbatim>\<open>configure_user\<close> and
  \<^verbatim>\<open>update_user\<close>. Python exceptions are values of the type \<open>exn\<close>; a function
  that may raise returns \<open>exn + 'a\<close>, with \<open>Inl\<close> for the exception. The framework's
  storage and the logger are an explicit \<open>world\<close> that every effectful function takes
  and returns.
\<close>

subsection \<open>Python values\<close>

datatype exn =
    IndexError
  | KeyError
  | ObjectDoesNotExist
  | SiteProfileNotAvailable
  | UserDoesNotExist

text \<open>
  A dictionary with string keys is an association list in iteration order; a lookup
  finds the first pair with the key.
\<close>

type_synonym 'v dict = "(string \<times> 'v) list"

text \<open>\<^verbatim>\<open>k in d\<close>\<close>

definition contains :: "'v dict \<Rightarrow> string \<Rightarrow> bool" where
  "contains d k = (map_of d k \<noteq> None)"

text \<open>\<^verbatim>\<open>d[k]\<close>, which raises KeyError on a missing key.\<close>

definition getitem :: "'v dict \<Rightarrow> string \<Rightarrow> exn + 'v" where
  "getitem d k = (case map_of d k of None \<Rightarrow> Inl KeyError | Some v \<Rightarrow> Inr v)"

text \<open>\<^verbatim>\<open>xs[0]\<close>, which raises IndexError on an empty list.\<close>

definition index0 :: "'a list \<Rightarrow> exn + 'a" where
  "index0 xs = (case xs of [] \<Rightarrow> Inl IndexError | x # _ \<Rightarrow> Inr x)"

text \<open>The attribute bag, the attribute mapping and the session information.\<close>

type_synonym attribute_bag = "string list dict"
type_synonym attribute_mapping = "string list dict"
type_synonym session_info = "attribute_bag dict"

text \<open>\<^verbatim>\<open>attributes[saml_attr][0]\<close>\<close>

definition first_value :: "attribute_bag \<Rightarrow> string \<Rightarrow> exn + string" where
  "first_value attributes saml_attr =
     (case getitem attributes saml_attr of
        Inl e \<Rightarrow> Inl e
      | Inr vs \<Rightarrow> index0 vs)"

subsection \<open>The framework: model instances, storage and logging\<close>

text \<open>
  A model instance is known to the backend by the attributes it exposes:
  \<^verbatim>\<open>hasattr(obj, name)\<close> asks whether the name is one of them and
  \<^verbatim>\<open>setattr(obj, name, value)\<close> assigns it. The account carries its primary key,
  the profile the key of the account it belongs to.
\<close>

record account =
  pk :: nat
  attrs :: "string dict"

record profile =
  user_id :: nat
  pattrs :: "string dict"

definition hasattr :: "string dict \<Rightarrow> string \<Rightarrow> bool" where
  "hasattr obj name = contains obj name"

definition setattr :: "string dict \<Rightarrow> string \<Rightarrow> string \<Rightarrow> string dict" where
  "setattr obj name v = AList.update name v obj"

datatype event =
    LogError string
  | LogDebug string
  | SaveUser account
  | SaveProfile profile

text \<open>
  The world: the table of accounts, the table of profiles, whether a profile module is
  configured (\<^verbatim>\<open>AUTH_PROFILE_MODULE\<close>), the attributes of a freshly created account,
  and the trace of the calls the backend has made to the logger and to \<^verbatim>\<open>save()\<close>.
\<close>

record world =
  user_table :: "account list"
  profile_table :: "profile list"
  profile_module :: bool
  new_user_fields :: "string dict"
  events :: "event list"

definition log_error :: "string \<Rightarrow> world \<Rightarrow> world" where
  "log_error msg w = w\<lparr>events := events w @ [LogError msg]\<rparr>"

definition log_debug :: "string \<Rightarrow> world \<Rightarrow> world" where
  "log_debug msg w = w\<lparr>events := events w @ [LogDebug msg]\<rparr>"

definition has_username :: "string \<Rightarrow> account \<Rightarrow> bool" where
  "has_username username a = (map_of (attrs a) ''username'' = Some username)"

text \<open>\<^verbatim>\<open>User.objects.get(username=username)\<close>\<close>

definition objects_get :: "string \<Rightarrow> world \<Rightarrow> exn + account" where
  "objects_get username w =
     (case find (has_username username) (user_table w) of
        None \<Rightarrow> Inl UserDoesNotExist
      | Some a \<Rightarrow> Inr a)"

definition fresh_pk :: "world \<Rightarrow> nat" where
  "fresh_pk w = Suc (fold max (map pk (user_table w)) 0)"

text \<open>\<^verbatim>\<open>User.objects.get_or_create(username=username)\<close>, which returns the pair
  of the account and the flag \<^verbatim>\<open>created\<close>.\<close>

definition get_or_create :: "string \<Rightarrow> world \<Rightarrow> (account \<times> bool) \<times> world" where
  "get_or_create username w =
     (case find (has_username username) (user_table w) of
        Some a \<Rightarrow> ((a, False), w)
      | None \<Rightarrow>
          (let a = \<lparr>pk = fresh_pk w,
                    attrs = setattr (new_user_fields w) ''username'' username\<rparr>
           in ((a, True), w\<lparr>user_table := user_table w @ [a]\<rparr>)))"

text \<open>\<^verbatim>\<open>user.save()\<close> and \<^verbatim>\<open>profile.save()\<close>: the row of the instance is replaced
  (inserted when there is none), and the call is recorded.\<close>

definition save_user :: "account \<Rightarrow> world \<Rightarrow> world" where
  "save_user a w =
     w\<lparr>user_table :=
         (if list_ex (\<lambda>r. pk r = pk a) (user_table w)
          then map (\<lambda>r. if pk r = pk a then a else r) (user_table w)
          else user_table w @ [a]),
       events := events w @ [SaveUser a]\<rparr>"

definition save_profile :: "profile \<Rightarrow> world \<Rightarrow> world" where
  "save_profile p w =
     w\<lparr>profile_table :=
         (if list_ex (\<lambda>r. user_id r = user_id p) (profile_table w)
          then map (\<lambda>r. if user_id r = user_id p then p else r) (profile_table w)
          else profile_table w @ [p]),
       events := events w @ [SaveProfile p]\<rparr>"

text \<open>\<^verbatim>\<open>user.get_profile()\<close>: raises SiteProfileNotAvailable when no profile module
  is configured and ObjectDoesNotExist when the account has no profile.\<close>

definition get_profile :: "account \<Rightarrow> world \<Rightarrow> exn + profile" where
  "get_profile a w =
     (if \<not> profile_module w then Inl SiteProfileNotAvailable
      else case find (\<lambda>p. user_id p = pk a) (profile_table w) of
             None \<Rightarrow> Inl ObjectDoesNotExist
           | Some p \<Rightarrow> Inr p)"

text \<open>\<^verbatim>\<open>user.set_unusable_password()\<close>: the password attribute becomes the marker
  that no password hashes to.\<close>

definition UNUSABLE_PASSWORD :: string where
  "UNUSABLE_PASSWORD = ''!''"

definition set_unusable_password :: "account \<Rightarrow> account" where
  "set_unusable_password a = a\<lparr>attrs := setattr (attrs a) ''password'' UNUSABLE_PASSWORD\<rparr>"

subsection \<open>update\_user\<close>

text \<open>The variables of the loop of \<^verbatim>\<open>update_user\<close>.\<close>

record upd_state =
  user :: account
  profile :: "profile option"
  user_modified :: bool
  profile_modified :: bool

text \<open>
  The inner loop \<^verbatim>\<open>for attr in django_attrs\<close>. It returns the exception that left
  it, if any, with the variables as they were at that moment.
\<close>

fun update_attrs ::
  "string list \<Rightarrow> string \<Rightarrow> attribute_bag \<Rightarrow> upd_state \<Rightarrow> exn option \<times> upd_state" where
  "update_attrs [] saml_attr attributes st = (None, st)"
| "update_attrs (attr # rest) saml_attr attributes st =
     (if hasattr (attrs (user st)) attr then
        (case first_value attributes saml_attr of
           Inl e \<Rightarrow> (Some e, st)
         | Inr v \<Rightarrow>
             update_attrs rest saml_attr attributes
               (st\<lparr>user := (user st)\<lparr>attrs := setattr (attrs (user st)) attr v\<rparr>,
                   user_modified := True\<rparr>))
      else
        (case profile st of
           None \<Rightarrow> update_attrs rest saml_attr attributes st
         | Some p \<Rightarrow>
             if hasattr (pattrs p) attr then
               (case first_value attributes saml_attr of
                  Inl e \<Rightarrow> (Some e, st)
                | Inr v \<Rightarrow>
                    update_attrs rest saml_attr attributes
                      (st\<lparr>profile := Some (p\<lparr>pattrs := setattr (pattrs p) attr v\<rparr>),
                          profile_modified := True\<rparr>))
             else update_attrs rest saml_attr attributes st))"

text \<open>
  The outer loop \<^verbatim>\<open>for saml_attr, django_attrs in attribute_mapping.items()\<close> with
  its \<^verbatim>\<open>try ... except KeyError: pass\<close> around the inner loop.
\<close>

fun update_entries :: "attribute_mapping \<Rightarrow> attribute_bag \<Rightarrow> upd_state \<Rightarrow> exn + upd_state" where
  "update_entries [] attributes st = Inr st"
| "update_entries ((saml_attr, django_attrs) # rest) attributes st =
     (case update_attrs django_attrs saml_attr attributes st of
        (None, st') \<Rightarrow> update_entries rest attributes st'
      | (Some e, st') \<Rightarrow>
          if e = KeyError then update_entries rest attributes st' else Inl e)"

text \<open>
  \<^verbatim>\<open>try: profile = user.get_profile()\<close> with its two handlers;
  \<^verbatim>\<open>User.DoesNotExist\<close> is a subclass of \<^verbatim>\<open>ObjectDoesNotExist\<close>.
\<close>

definition load_profile :: "account \<Rightarrow> world \<Rightarrow> exn + profile option" where
  "load_profile usr w =
     (case get_profile usr w of
        Inr p \<Rightarrow> Inr (Some p)
      | Inl e \<Rightarrow>
          if e = ObjectDoesNotExist \<or> e = UserDoesNotExist then Inr None
          else if e = SiteProfileNotAvailable then Inr None
          else Inl e)"

text \<open>The end of \<^verbatim>\<open>update_user\<close> (lines 135 to 139): the two independent saves.\<close>

definition save_modified :: "upd_state \<Rightarrow> bool \<Rightarrow> world \<Rightarrow> world" where
  "save_modified st force_save w =
     (let w1 = (if user_modified st \<or> force_save then save_user (user st) w else w)
      in case profile st of
           None \<Rightarrow> w1
         | Some p \<Rightarrow>
             if profile_modified st \<or> force_save then save_profile p w1 else w1)"

definition initial :: "account \<Rightarrow> profile option \<Rightarrow> upd_state" where
  "initial usr prof =
     \<lparr>user = usr, profile = prof, user_modified = False, profile_modified = False\<rparr>"

definition update_user ::
  "account \<Rightarrow> attribute_bag \<Rightarrow> attribute_mapping \<Rightarrow> bool \<Rightarrow> world \<Rightarrow> (exn + account) \<times> world" where
  "update_user usr attributes attribute_mapping force_save w =
     (if attribute_mapping = [] then (Inr usr, w)
      else
        (case load_profile usr w of
           Inl e \<Rightarrow> (Inl e, w)
         | Inr prof \<Rightarrow>
             (case update_entries attribute_mapping attributes (initial usr prof) of
                Inl e \<Rightarrow> (Inl e, w)
              | Inr st \<Rightarrow> (Inr (user st), save_modified st force_save w))))"

subsection \<open>configure\_user and clean\_username\<close>

definition clean_username :: "string \<Rightarrow> string" where
  "clean_username username = username"

definition configure_user ::
  "account \<Rightarrow> attribute_bag \<Rightarrow> attribute_mapping \<Rightarrow> world \<Rightarrow> (exn + account) \<times> world" where
  "configure_user usr attributes attribute_mapping w =
     update_user (set_unusable_password usr) attributes attribute_mapping True w"

subsection \<open>authenticate\<close>

text \<open>
  The loop that looks for the user name (lines 46 to 49): \<open>saml_user\<close> is the
  variable, \<open>None\<close> before the loop.
\<close>

fun find_saml_user ::
  "attribute_mapping \<Rightarrow> attribute_bag \<Rightarrow> string option \<Rightarrow> exn + string option" where
  "find_saml_user [] attributes saml_user = Inr saml_user"
| "find_saml_user ((saml_attr, django_fields) # rest) attributes saml_user =
     (if ''username'' \<in> set django_fields \<and> contains attributes saml_attr then
        (case first_value attributes saml_attr of
           Inl e \<Rightarrow> Inl e
         | Inr v \<Rightarrow> find_saml_user rest attributes (Some v))
      else find_saml_user rest attributes saml_user)"

text \<open>The result of a call that returns an account, as the optional account that
  \<^verbatim>\<open>authenticate\<close> returns.\<close>

definition returning :: "(exn + account) \<times> world \<Rightarrow> (exn + account option) \<times> world" where
  "returning r = (case r of (Inl e, w) \<Rightarrow> (Inl e, w) | (Inr u, w) \<Rightarrow> (Inr (Some u), w))"

text \<open>
  The second half of \<^verbatim>\<open>authenticate\<close> (lines 55 to 80), from the cleaned user name
  on: get-or-create when unknown users are created, a plain lookup otherwise, where
  \<^verbatim>\<open>User.DoesNotExist\<close> raised anywhere in the \<^verbatim>\<open>try\<close> block is logged and
  leaves \<^verbatim>\<open>user = None\<close>.
\<close>

definition resolve_user ::
  "string \<Rightarrow> attribute_bag \<Rightarrow> attribute_mapping \<Rightarrow> bool \<Rightarrow> world
     \<Rightarrow> (exn + account option) \<times> world" where
  \<open>resolve_user username attributes attribute_mapping create_unknown_user w =
     (if create_unknown_user then
        (let w1 = log_debug (''Check if the user "'' @ username
                               @ ''" exists or create otherwise'') w
         in case get_or_create username w1 of
              ((usr, created), w2) \<Rightarrow>
                if created then
                  returning (configure_user usr attributes attribute_mapping
                               (log_debug ''New user created'' w2))
                else
                  returning (update_user usr attributes attribute_mapping False
                               (log_debug ''User updated'' w2)))
      else
        (let w1 = log_debug (''Retrieving existing user "'' @ username @ ''"'') w;
             r = (case objects_get username w1 of
                    Inl e \<Rightarrow> (Inl e, w1)
                  | Inr usr \<Rightarrow> update_user usr attributes attribute_mapping False w1)
         in case r of
              (Inl e, w2) \<Rightarrow>
                if e = UserDoesNotExist then
                  (Inr None,
                   log_error (''The user "'' @ username @ ''" does not exist'') w2)
                else (Inl e, w2)
            | (Inr usr, w2) \<Rightarrow> (Inr (Some usr), w2)))\<close>

definition authenticate ::
  "session_info option \<Rightarrow> attribute_mapping option \<Rightarrow> bool \<Rightarrow> world
     \<Rightarrow> (exn + account option) \<times> world" where
  \<open>authenticate session_info attribute_mapping create_unknown_user w =
     (case session_info of
        None \<Rightarrow> (Inr None, log_error ''Session info or attribute mapping are None'' w)
      | Some si \<Rightarrow>
          (case attribute_mapping of
             None \<Rightarrow> (Inr None, log_error ''Session info or attribute mapping are None'' w)
           | Some am \<Rightarrow>
               if \<not> contains si ''ava'' then
                 (Inr None, log_error ''"ava" key not found in session_info'' w)
               else
                 (case getitem si ''ava'' of
                    Inl e \<Rightarrow> (Inl e, w)
                  | Inr attributes \<Rightarrow>
                      (let w1 = (if attributes = []
                                 then log_error ''The attributes dictionary is empty'' w
                                 else w)
                       in case find_saml_user am attributes None of
                            Inl e \<Rightarrow> (Inl e, w1)
                          | Inr None \<Rightarrow>
                              (Inr None, log_error ''Could not find saml_user value'' w1)
                          | Inr (Some saml_user) \<Rightarrow>
                              resolve_user (clean_username saml_user) attributes am
                                create_unknown_user w1))))\<close>

subsection \<open>The data model's condition on the bag, and the observations\<close>

text \<open>Every attribute of the bag has at least one value.\<close>

definition bag_ok :: "attribute_bag \<Rightarrow> bool" where
  "bag_ok attributes = list_all (\<lambda>kv. snd kv \<noteq> []) attributes"

text \<open>The accounts on which \<^verbatim>\<open>save()\<close> was called, in the order of the calls.\<close>

fun saved_users :: "event list \<Rightarrow> account list" where
  "saved_users [] = []"
| "saved_users (SaveUser a # es) = a # saved_users es"
| "saved_users (e # es) = saved_users es"

text \<open>A name is exposed when the account or the available profile has it.\<close>

definition exposes :: "upd_state \<Rightarrow> string \<Rightarrow> bool" where
  "exposes st name =
     (hasattr (attrs (user st)) name \<or>
      (case profile st of None \<Rightarrow> False | Some p \<Rightarrow> hasattr (pattrs p) name))"

text \<open>Some mapping entry whose attribute is in the bag names a field of the account:
  the mapping assigns a field of the account.\<close>

definition assigns_user :: "account \<Rightarrow> attribute_mapping \<Rightarrow> attribute_bag \<Rightarrow> bool" where
  "assigns_user usr am attributes =
     list_ex (\<lambda>entry. contains attributes (fst entry) \<and>
                       list_ex (hasattr (attrs usr)) (snd entry)) am"

subsection \<open>The specification's description of the two loops\<close>

text \<open>
  These definitions follow the words of the specification, not the code; the theorems
  below compare them with the functions above.

  Setting one field: on the account if it exposes the field, else on the profile if one
  is available and exposes it.
\<close>

definition spec_set_field :: "string \<Rightarrow> string \<Rightarrow> upd_state \<Rightarrow> upd_state" where
  "spec_set_field v name st =
     (if hasattr (attrs (user st)) name then
        st\<lparr>user := (user st)\<lparr>attrs := setattr (attrs (user st)) name v\<rparr>,
           user_modified := True\<rparr>
      else
        (case profile st of
           None \<Rightarrow> st
         | Some p \<Rightarrow>
             if hasattr (pattrs p) name then
               st\<lparr>profile := Some (p\<lparr>pattrs := setattr (pattrs p) name v\<rparr>),
                  profile_modified := True\<rparr>
             else st))"

text \<open>One mapping entry: skipped when its attribute is not in the bag, else every field
  name of its list is set from the first value.\<close>

definition spec_entry :: "attribute_bag \<Rightarrow> string \<times> string list \<Rightarrow> upd_state \<Rightarrow> upd_state" where
  "spec_entry attributes entry st =
     (case map_of attributes (fst entry) of
        None \<Rightarrow> st
      | Some vs \<Rightarrow> fold (spec_set_field (hd vs)) (snd entry) st)"

definition spec_update ::
  "account \<Rightarrow> profile option \<Rightarrow> attribute_mapping \<Rightarrow> attribute_bag \<Rightarrow> upd_state" where
  "spec_update usr prof am attributes = fold (spec_entry attributes) am (initial usr prof)"

text \<open>The profile that is available: none when no profile module is configured or the
  account has no profile.\<close>

definition available_profile :: "account \<Rightarrow> world \<Rightarrow> profile option" where
  "available_profile usr w =
     (if profile_module w then find (\<lambda>p. user_id p = pk usr) (profile_table w) else None)"

text \<open>A mapping entry qualifies for the user name when its field list contains
  \<open>username\<close> and its attribute is in the bag; the candidate is the first value of the
  last qualifying entry.\<close>

definition qualifies :: "attribute_bag \<Rightarrow> string \<times> string list \<Rightarrow> bool" where
  "qualifies attributes entry =
     (''username'' \<in> set (snd entry) \<and> contains attributes (fst entry))"

definition spec_username :: "attribute_mapping \<Rightarrow> attribute_bag \<Rightarrow> string option" where
  "spec_username am attributes =
     (case rev (filter (qualifies attributes) am) of
        [] \<Rightarrow> None
      | entry # _ \<Rightarrow> map_option hd (map_of attributes (fst entry)))"

section \<open>Properties of the model\<close>

subsection \<open>Attributes and first values\<close>

lemma hasattr_keys: "hasattr obj name = (name \<in> fst ` set obj)"
  by (simp add: hasattr_def contains_def map_of_eq_None_iff)

lemma hasattr_setattr: "hasattr (setattr obj n v) m = (m = n \<or> hasattr obj m)"
  by (auto simp: hasattr_def contains_def setattr_def update_conv')

lemma exposes_spec_set_field [simp]: "exposes (spec_set_field v name st) m = exposes st m"
  by (auto simp: exposes_def spec_set_field_def hasattr_setattr split: option.splits)

lemma first_value_Some: "map_of attributes k = Some (v # vs) \<Longrightarrow> first_value attributes k = Inr v"
  by (simp add: first_value_def getitem_def index0_def)

lemma first_value_Nil: "map_of attributes k = Some [] \<Longrightarrow> first_value attributes k = Inl IndexError"
  by (simp add: first_value_def getitem_def index0_def)

lemma first_value_None: "map_of attributes k = None \<Longrightarrow> first_value attributes k = Inl KeyError"
  by (simp add: first_value_def getitem_def index0_def)

subsection \<open>The inner loop, by what the bag holds for the attribute\<close>

lemma update_attrs_Some:
  "map_of attributes k = Some (v # vs) \<Longrightarrow>
   update_attrs fs k attributes st = (None, fold (spec_set_field v) fs st)"
  by (induction fs arbitrary: st)
     (auto simp: first_value_Some spec_set_field_def split: option.splits)

lemma update_attrs_Nil:
  "map_of attributes k = Some [] \<Longrightarrow>
   update_attrs fs k attributes st =
     (if list_ex (exposes st) fs then Some IndexError else None, st)"
  by (induction fs arbitrary: st)
     (auto simp: first_value_Nil exposes_def split: option.splits)

lemma update_attrs_None:
  "map_of attributes k = None \<Longrightarrow>
   update_attrs fs k attributes st =
     (if list_ex (exposes st) fs then Some KeyError else None, st)"
  by (induction fs arbitrary: st)
     (auto simp: first_value_None exposes_def split: option.splits)


lemma fold_spec_set_field_unexposed:
  "\<not> list_ex (exposes st) fs \<Longrightarrow> fold (spec_set_field v) fs st = st"
  by (induction fs arbitrary: st)
     (auto simp: spec_set_field_def exposes_def split: option.splits)

lemma exposes_fold_set_field [simp]: "exposes (fold (spec_set_field v) fs st) m = exposes st m"
  by (induction fs arbitrary: st) auto

lemma exposes_spec_entry [simp]: "exposes (spec_entry attributes entry st) m = exposes st m"
  by (simp add: spec_entry_def split: option.splits)

lemma update_attrs_Inr:
  assumes "update_attrs fs k attributes st = (r, st')"
  shows "(r = None \<or> r = Some KeyError \<longrightarrow> st' = spec_entry attributes (k, fs) st) \<and>
         (r = None \<or> r = Some KeyError \<or> r = Some IndexError)"
proof (cases "map_of attributes k")
  case None
  with assms show ?thesis
    by (auto simp: update_attrs_None spec_entry_def split: if_splits)
next
  case (Some vs)
  show ?thesis
  proof (cases vs)
    case Nil
    with Some assms show ?thesis
      by (auto simp: update_attrs_Nil spec_entry_def fold_spec_set_field_unexposed split: if_splits)
  next
    case (Cons v vs')
    with Some assms show ?thesis
      by (auto simp: update_attrs_Some spec_entry_def)
  qed
qed

subsection \<open>The outer loop\<close>

lemma update_entries_Inr:
  "update_entries am attributes st = Inr st' \<Longrightarrow> st' = fold (spec_entry attributes) am st"
proof (induction am arbitrary: st)
  case Nil
  then show ?case by simp
next
  case (Cons entry am)
  obtain k fs where e: "entry = (k, fs)" by (cases entry)
  obtain r st1 where u: "update_attrs fs k attributes st = (r, st1)"
    by (cases "update_attrs fs k attributes st")
  from update_attrs_Inr [OF u] Cons.prems e u
  have "st1 = spec_entry attributes (k, fs) st" and "update_entries am attributes st1 = Inr st'"
    by (auto split: option.splits if_splits)
  with Cons.IH e show ?case by simp
qed

lemma update_entries_Inl:
  "update_entries am attributes st = Inl e \<Longrightarrow> e = IndexError"
proof (induction am arbitrary: st)
  case Nil
  then show ?case by simp
next
  case (Cons entry am)
  obtain k fs where e: "entry = (k, fs)" by (cases entry)
  obtain r st1 where u: "update_attrs fs k attributes st = (r, st1)"
    by (cases "update_attrs fs k attributes st")
  from update_attrs_Inr [OF u] Cons.prems e u Cons.IH show ?case
    by (auto split: option.splits if_splits)
qed

lemma bag_ok_lookup: "bag_ok attributes \<Longrightarrow> map_of attributes k = Some vs \<Longrightarrow> vs \<noteq> []"
  by (auto simp: bag_ok_def list_all_iff dest!: map_of_SomeD)

lemma update_entries_spec:
  "bag_ok attributes \<Longrightarrow> update_entries am attributes st = Inr (fold (spec_entry attributes) am st)"
proof (induction am arbitrary: st)
  case Nil
  then show ?case by simp
next
  case (Cons entry am)
  obtain k fs where e: "entry = (k, fs)" by (cases entry)
  show ?case
  proof (cases "map_of attributes k")
    case None
    with Cons e show ?thesis
      by (simp add: update_attrs_None spec_entry_def)
  next
    case (Some vs)
    with Cons.prems obtain v vs' where "vs = v # vs'"
      by (cases vs) (auto dest: bag_ok_lookup)
    with Some Cons e show ?thesis
      by (simp add: update_attrs_Some spec_entry_def)
  qed
qed

lemma user_hasattr_spec_set_field [simp]:
  "hasattr (attrs (user (spec_set_field v name st))) m = hasattr (attrs (user st)) m"
  by (auto simp: spec_set_field_def hasattr_setattr split: option.splits)

lemma user_hasattr_fold_set_field [simp]:
  "hasattr (attrs (user (fold (spec_set_field v) fs st))) m = hasattr (attrs (user st)) m"
  by (induction fs arbitrary: st) auto

lemma user_hasattr_spec_entry [simp]:
  "hasattr (attrs (user (spec_entry attributes entry st))) m = hasattr (attrs (user st)) m"
  by (simp add: spec_entry_def split: option.splits)

lemma user_modified_fold_set_field:
  "user_modified (fold (spec_set_field v) fs st) =
     (user_modified st \<or> list_ex (hasattr (attrs (user st))) fs)"
  by (induction fs arbitrary: st) (auto simp: spec_set_field_def hasattr_setattr split: option.splits)

lemma user_modified_spec_entry:
  "user_modified (spec_entry attributes entry st) =
     (user_modified st \<or>
      contains attributes (fst entry) \<and> list_ex (hasattr (attrs (user st))) (snd entry))"
  by (auto simp: spec_entry_def contains_def user_modified_fold_set_field split: option.splits)

lemma assigns_user_cong:
  "(\<And>m. hasattr (attrs u) m = hasattr (attrs u') m) \<Longrightarrow>
   assigns_user u am attributes = assigns_user u' am attributes"
  by (simp add: assigns_user_def list_ex_iff)

lemma user_modified_fold_spec_entry:
  "user_modified (fold (spec_entry attributes) am st) =
     (user_modified st \<or> assigns_user (user st) am attributes)"
proof (induction am arbitrary: st)
  case Nil
  then show ?case by (simp add: assigns_user_def)
next
  case (Cons entry am)
  have "assigns_user (user (spec_entry attributes entry st)) am attributes =
        assigns_user (user st) am attributes"
    by (rule assigns_user_cong) simp
  with Cons show ?case
    by (auto simp: user_modified_spec_entry assigns_user_def)
qed


subsection \<open>update\_user as a whole\<close>

lemma saved_users_append [simp]: "saved_users (xs @ ys) = saved_users xs @ saved_users ys"
  by (induction xs rule: saved_users.induct) auto

lemma load_profile_available: "load_profile usr w = Inr (available_profile usr w)"
  by (simp add: load_profile_def get_profile_def available_profile_def split: option.splits)

lemma saved_users_save_modified:
  "saved_users (events (save_modified st force w)) =
     saved_users (events w) @ (if user_modified st \<or> force then [user st] else [])"
  by (simp add: save_modified_def save_user_def save_profile_def Let_def split: option.splits)

lemma update_user_spec:
  "bag_ok attributes \<Longrightarrow> am \<noteq> [] \<Longrightarrow>
   update_user usr attributes am force w =
     (Inr (user (spec_update usr (available_profile usr w) am attributes)),
      save_modified (spec_update usr (available_profile usr w) am attributes) force w)"
  by (simp add: update_user_def load_profile_available update_entries_spec spec_update_def)

lemma update_user_cases:
  "am \<noteq> [] \<Longrightarrow>
   update_user usr attributes am force w = (Inl IndexError, w) \<or>
   update_user usr attributes am force w =
     (Inr (user (spec_update usr (available_profile usr w) am attributes)),
      save_modified (spec_update usr (available_profile usr w) am attributes) force w)"
  by (auto simp: update_user_def load_profile_available spec_update_def
           dest: update_entries_Inr update_entries_Inl split: sum.splits)

lemma user_modified_spec_update:
  "user_modified (spec_update usr prof am attributes) = assigns_user usr am attributes"
  by (simp add: spec_update_def user_modified_fold_spec_entry initial_def)


subsection \<open>The search for the user name\<close>

lemma find_saml_user_Cons:
  "find_saml_user (entry # rest) attributes acc =
     (if qualifies attributes entry then
        (case first_value attributes (fst entry) of
           Inl e \<Rightarrow> Inl e
         | Inr v \<Rightarrow> find_saml_user rest attributes (Some v))
      else find_saml_user rest attributes acc)"
  by (cases entry) (simp add: qualifies_def)

lemma find_saml_user_spec:
  "bag_ok attributes \<Longrightarrow>
   find_saml_user am attributes acc =
     Inr (case rev (filter (qualifies attributes) am) of
            [] \<Rightarrow> acc
          | entry # _ \<Rightarrow> map_option hd (map_of attributes (fst entry)))"
proof (induction am arbitrary: acc)
  case Nil
  then show ?case by simp
next
  case (Cons entry am)
  show ?case
  proof (cases "qualifies attributes entry")
    case False
    with Cons show ?thesis by (simp only: find_saml_user_Cons filter.simps if_False)
  next
    case True
    then obtain vs where vs: "map_of attributes (fst entry) = Some vs"
      by (auto simp: qualifies_def contains_def)
    with Cons.prems obtain v vs' where "vs = v # vs'"
      by (cases vs) (auto dest: bag_ok_lookup)
    with vs True Cons show ?thesis
      by (cases "rev (filter (qualifies attributes) am)")
         (simp_all add: find_saml_user_Cons first_value_Some del: find_saml_user.simps(2))
  qed
qed

lemma find_saml_user_unqualified:
  "filter (qualifies attributes) am = [] \<Longrightarrow> find_saml_user am attributes acc = Inr acc"
  by (induction am arbitrary: acc) (auto simp: find_saml_user_Cons simp del: find_saml_user.simps(2) split: if_splits)

lemma find_saml_user_IndexError:
  "(k, fs) \<in> set am \<Longrightarrow> ''username'' \<in> set fs \<Longrightarrow> map_of attributes k = Some [] \<Longrightarrow>
   find_saml_user am attributes acc = Inl IndexError"
proof (induction am arbitrary: acc)
  case Nil
  then show ?case by simp
next
  case (Cons entry am)
  obtain k' fs' where e: "entry = (k', fs')" by (cases entry)
  show ?case
  proof (cases "entry = (k, fs)")
    case True
    with Cons.prems e show ?thesis
      by (simp add: contains_def first_value_Nil)
  next
    case False
    with Cons.prems have "(k, fs) \<in> set am" by simp
    from Cons.IH [OF this Cons.prems(2,3)] e show ?thesis
      by (cases "map_of attributes k'" rule: option.exhaust; cases "the (map_of attributes k')")
         (auto simp: contains_def first_value_Nil first_value_Some)
  qed
qed

lemma authenticate_ava:
  "map_of si ''ava'' = Some attributes \<Longrightarrow>
   authenticate (Some si) (Some am) create w =
     (case find_saml_user am attributes None of
        Inl e \<Rightarrow>
          (Inl e, if attributes = [] then log_error ''The attributes dictionary is empty'' w else w)
      | Inr None \<Rightarrow>
          (Inr None,
           log_error ''Could not find saml_user value''
             (if attributes = [] then log_error ''The attributes dictionary is empty'' w else w))
      | Inr (Some saml_user) \<Rightarrow>
          resolve_user (clean_username saml_user) attributes am create
            (if attributes = [] then log_error ''The attributes dictionary is empty'' w else w))"
  by (simp add: authenticate_def contains_def getitem_def Let_def)

lemma update_entries_IndexError:
  "(k, fs) \<in> set am \<Longrightarrow> map_of attributes k = Some [] \<Longrightarrow> list_ex (exposes st) fs \<Longrightarrow>
   update_entries am attributes st = Inl IndexError"
proof (induction am arbitrary: st)
  case Nil
  then show ?case by simp
next
  case (Cons entry am)
  obtain k' fs' where e: "entry = (k', fs')" by (cases entry)
  obtain r st1 where u: "update_attrs fs' k' attributes st = (r, st1)"
    by (cases "update_attrs fs' k' attributes st")
  note c = update_attrs_Inr [OF u]
  show ?case
  proof (cases "r = Some IndexError")
    case True
    with e u show ?thesis by simp
  next
    case False
    with c have st1: "st1 = spec_entry attributes (k', fs') st" and r: "r = None \<or> r = Some KeyError"
      by auto
    have "entry \<noteq> (k, fs)"
    proof
      assume "entry = (k, fs)"
      with e u Cons.prems False show False by (simp add: update_attrs_Nil)
    qed
    with Cons.prems have "(k, fs) \<in> set am" by simp
    moreover have "list_ex (exposes st1) fs"
      using Cons.prems(3) by (simp add: st1 list_ex_iff)
    ultimately have "update_entries am attributes st1 = Inl IndexError"
      using Cons.IH Cons.prems(2) by blast
    with r e u show ?thesis by auto
  qed
qed


lemma update_user_total:
  "bag_ok attributes \<Longrightarrow> \<exists>u' w'. update_user usr attributes am force w = (Inr u', w')"
proof (cases "am = []")
  case True
  then show ?thesis by (simp add: update_user_def)
next
  case False
  assume "bag_ok attributes"
  from update_user_spec [OF this False] show ?thesis by blast
qed

lemma update_user_raises:
  "update_user usr attributes am force w = (Inl e, w') \<Longrightarrow> e = IndexError"
  using update_user_cases [of am usr attributes force w]
  by (cases "am = []") (auto simp: update_user_def)

lemma find_saml_user_empty_bag: "find_saml_user am [] acc = Inr acc"
  by (rule find_saml_user_unqualified) (simp add: qualifies_def contains_def)

subsection \<open>The storage\<close>

lemma get_or_create_has_username:
  "get_or_create username w = ((usr, created), w') \<Longrightarrow> has_username username usr"
  by (auto simp: get_or_create_def Let_def has_username_def setattr_def update_conv'
           split: option.splits dest: find_Some_iff [THEN iffD1])

lemma objects_get_log_debug [simp]: "objects_get username (log_debug msg w) = objects_get username w"
  by (simp add: objects_get_def log_debug_def)

subsection \<open>Attributes that the mapping does not name\<close>

lemma spec_set_field_other_attr:
  "m \<noteq> name \<Longrightarrow>
   map_of (attrs (user (spec_set_field v name st))) m = map_of (attrs (user st)) m"
  by (simp add: spec_set_field_def setattr_def update_conv' split: option.splits)

lemma fold_set_field_other_attr:
  "m \<notin> set fs \<Longrightarrow>
   map_of (attrs (user (fold (spec_set_field v) fs st))) m = map_of (attrs (user st)) m"
  by (induction fs arbitrary: st) (auto simp: spec_set_field_other_attr)

lemma spec_entry_other_attr:
  "m \<notin> set (snd entry) \<Longrightarrow>
   map_of (attrs (user (spec_entry attributes entry st))) m = map_of (attrs (user st)) m"
  by (simp add: spec_entry_def fold_set_field_other_attr split: option.splits)

lemma spec_update_other_attr:
  "\<not> list_ex (\<lambda>entry. m \<in> set (snd entry)) am \<Longrightarrow>
   map_of (attrs (user (spec_update usr prof am attributes))) m = map_of (attrs usr) m"
proof -
  have "\<not> list_ex (\<lambda>entry. m \<in> set (snd entry)) am \<Longrightarrow>
        map_of (attrs (user (fold (spec_entry attributes) am st))) m = map_of (attrs (user st)) m"
    for st
    by (induction am arbitrary: st) (auto simp: spec_entry_other_attr)
  then show "\<not> list_ex (\<lambda>entry. m \<in> set (snd entry)) am \<Longrightarrow> ?thesis"
    by (simp add: spec_update_def initial_def)
qed

section \<open>The claims of the specification\<close>

subsection \<open>C1: the user name that authenticate uses\<close>

text \<open>
  C1. For a session information with an attribute bag (every attribute of which has a
  value, as the data model requires) and an attribute mapping, the loop of
  \<^verbatim>\<open>authenticate\<close> computes the candidate the specification describes: the first
  value of the last mapping entry, in iteration order, whose field list contains
  \<open>username\<close> and whose attribute is in the bag. \<^verbatim>\<open>authenticate\<close> fails with no
  account when there is no such entry and otherwise goes on with the candidate passed
  through \<^verbatim>\<open>clean_username\<close>, which returns its argument unchanged.
\<close>

theorem authenticate_username:
  assumes "map_of si ''ava'' = Some attributes" and "bag_ok attributes"
  shows "find_saml_user am attributes None = Inr (spec_username am attributes) \<and>
         authenticate (Some si) (Some am) create w =
           (case spec_username am attributes of
              None \<Rightarrow>
                (Inr None,
                 log_error ''Could not find saml_user value''
                   (if attributes = []
                    then log_error ''The attributes dictionary is empty'' w else w))
            | Some candidate \<Rightarrow>
                resolve_user (clean_username candidate) attributes am create
                  (if attributes = []
                   then log_error ''The attributes dictionary is empty'' w else w)) \<and>
         (\<forall>candidate. clean_username candidate = candidate)"
proof -
  have f: "find_saml_user am attributes None = Inr (spec_username am attributes)"
    using assms(2) by (simp add: find_saml_user_spec spec_username_def)
  show ?thesis
    by (simp add: f authenticate_ava [OF assms(1)] clean_username_def split: option.splits)
qed

text \<open>Two entries qualify; the later one, \<open>mail\<close>, gives the user name.\<close>

theorem authenticate_username_witness:
  "map_of [(''ava'', [(''uid'', [''alice'', ''al'']), (''mail'', [''a@x''])])] ''ava''
     = Some [(''uid'', [''alice'', ''al'']), (''mail'', [''a@x''])] \<and>
   bag_ok [(''uid'', [''alice'', ''al'']), (''mail'', [''a@x''])] \<and>
   find_saml_user [(''uid'', [''username'']), (''mail'', [''email'', ''username''])]
     [(''uid'', [''alice'', ''al'']), (''mail'', [''a@x''])] None = Inr (Some ''a@x'') \<and>
   authenticate (Some [(''ava'', [(''uid'', [''alice'', ''al'']), (''mail'', [''a@x''])])])
     (Some [(''uid'', [''username'']), (''mail'', [''email'', ''username''])]) True
     \<lparr>user_table = [], profile_table = [], profile_module = False,
      new_user_fields = [(''username'', ''u'')], events = []\<rparr>
   = resolve_user ''a@x'' [(''uid'', [''alice'', ''al'']), (''mail'', [''a@x''])]
       [(''uid'', [''username'']), (''mail'', [''email'', ''username''])] True
       \<lparr>user_table = [], profile_table = [], profile_module = False,
        new_user_fields = [(''username'', ''u'')], events = []\<rparr>"
proof -
  have h1: "map_of [(''ava'', [(''uid'', [''alice'', ''al'']), (''mail'', [''a@x''])])] ''ava''
     = Some [(''uid'', [''alice'', ''al'']), (''mail'', [''a@x''])]"
    by simp
  have h2: "bag_ok [(''uid'', [''alice'', ''al'']), (''mail'', [''a@x''])]"
    by (simp add: bag_ok_def)
  have s: "spec_username [(''uid'', [''username'']), (''mail'', [''email'', ''username''])]
             [(''uid'', [''alice'', ''al'']), (''mail'', [''a@x''])] = Some ''a@x''"
    by (simp add: spec_username_def qualifies_def contains_def)
  from authenticate_username [OF h1 h2,
      of "[(''uid'', [''username'']), (''mail'', [''email'', ''username''])]" True
         "\<lparr>user_table = [], profile_table = [], profile_module = False,
           new_user_fields = [(''username'', ''u'')], events = []\<rparr>"]
  show ?thesis
    using h1 h2 by (simp add: s)
qed

subsection \<open>C2: creating unknown users\<close>

text \<open>
  C2. When a user name is extracted and unknown users are created, \<^verbatim>\<open>authenticate\<close>
  calls get-or-create with the cleaned user name; it calls \<^verbatim>\<open>configure_user\<close> on a
  newly created account and \<^verbatim>\<open>update_user\<close> on an existing one, and returns what
  that call returns. On a bag that meets the data model this is an account.
\<close>

theorem authenticate_create:
  assumes "map_of si ''ava'' = Some attributes"
    and "find_saml_user am attributes None = Inr (Some saml_user)"
  shows "authenticate (Some si) (Some am) True w =
           (case get_or_create (clean_username saml_user)
                   (log_debug (''Check if the user '' @ [CHR 0x22] @ clean_username saml_user
                               @ [CHR 0x22] @ '' exists or create otherwise'') w) of
              ((usr, created), w2) \<Rightarrow>
                if created
                then returning (configure_user usr attributes am
                                  (log_debug ''New user created'' w2))
                else returning (update_user usr attributes am False
                                  (log_debug ''User updated'' w2))) \<and>
         (bag_ok attributes \<longrightarrow>
            (\<exists>usr w'. authenticate (Some si) (Some am) True w = (Inr (Some usr), w')))"
proof -
  have ne: "attributes \<noteq> []"
    using assms(2) by (auto simp: find_saml_user_empty_bag)
  have eq: "authenticate (Some si) (Some am) True w =
              resolve_user (clean_username saml_user) attributes am True w"
    by (simp add: authenticate_ava [OF assms(1)] assms(2) ne)
  have 1: ?thesis if "bag_ok attributes"
  proof -
    obtain usr created w2 where g: "get_or_create (clean_username saml_user)
                   (log_debug (''Check if the user '' @ [CHR 0x22] @ clean_username saml_user
                               @ [CHR 0x22] @ '' exists or create otherwise'') w)
                   = ((usr, created), w2)"
      by (metis surj_pair)
    from update_user_total [OF that] obtain u1 w1 where
      "update_user usr attributes am False (log_debug ''User updated'' w2) = (Inr u1, w1)"
      by blast
    moreover from update_user_total [OF that] obtain u2 w3 where
      "configure_user usr attributes am (log_debug ''New user created'' w2) = (Inr u2, w3)"
      unfolding configure_user_def by blast
    ultimately show ?thesis using g
      by (simp add: eq resolve_user_def Let_def returning_def)
  qed
  have 2: ?thesis if "\<not> bag_ok attributes"
    using that by (simp add: eq resolve_user_def Let_def)
  from 1 2 show ?thesis by blast
qed

text \<open>No account is named \<open>alice\<close>: one is created, configured and returned.\<close>

theorem authenticate_create_witness:
  "map_of [(''ava'', [(''uid'', [''alice''])])] ''ava'' = Some [(''uid'', [''alice''])] \<and>
   find_saml_user [(''uid'', [''username'', ''email''])] [(''uid'', [''alice''])] None
     = Inr (Some ''alice'') \<and>
   bag_ok [(''uid'', [''alice''])] \<and>
   fst (authenticate (Some [(''ava'', [(''uid'', [''alice''])])])
          (Some [(''uid'', [''username'', ''email''])]) True
          \<lparr>user_table = [], profile_table = [], profile_module = False,
           new_user_fields = [(''username'', ''u''), (''email'', ''e'')], events = []\<rparr>)
   = Inr (Some \<lparr>pk = 1, attrs = [(''username'', ''alice''), (''email'', ''alice''),
                                  (''password'', ''!'')]\<rparr>)"
proof -
  have h1: "map_of [(''ava'', [(''uid'', [''alice''])])] ''ava'' = Some [(''uid'', [''alice''])]"
    by simp
  have h2: "find_saml_user [(''uid'', [''username'', ''email''])] [(''uid'', [''alice''])] None
     = Inr (Some ''alice'')"
    by (simp add: contains_def first_value_def getitem_def index0_def)
  have h3: "bag_ok [(''uid'', [''alice''])]"
    by (simp add: bag_ok_def)
  from authenticate_create [OF h1 h2,
      of "\<lparr>user_table = [], profile_table = [], profile_module = False,
           new_user_fields = [(''username'', ''u''), (''email'', ''e'')], events = []\<rparr>"]
  show ?thesis
    using h1 h2 h3
    by (simp add: clean_username_def get_or_create_def log_debug_def fresh_pk_def Let_def
          returning_def configure_user_def set_unusable_password_def UNUSABLE_PASSWORD_def
          update_user_def load_profile_def get_profile_def initial_def hasattr_def
          contains_def first_value_def getitem_def index0_def setattr_def save_modified_def
          save_user_def)
qed

subsection \<open>C3: the fields update\_user sets\<close>

text \<open>
  C3. On a bag that meets the data model and a non-empty mapping, \<^verbatim>\<open>update_user\<close>
  does what the specification describes: an unavailable profile (no profile module, or
  no profile for the account) is no profile and not an error; every mapping entry whose
  attribute is in the bag sets each of its field names from the first value, on the
  account if the account exposes the name, else on the profile if one is available and
  exposes it; an entry whose attribute is not in the bag changes nothing. The account
  returned is the account so updated.
\<close>

theorem update_user_fields:
  assumes "bag_ok attributes" and "am \<noteq> []"
  shows "load_profile usr w = Inr (available_profile usr w) \<and>
         update_entries am attributes (initial usr prof) =
           Inr (spec_update usr prof am attributes) \<and>
         update_user usr attributes am force w =
           (Inr (user (spec_update usr (available_profile usr w) am attributes)),
            save_modified (spec_update usr (available_profile usr w) am attributes) force w)"
  using assms
  by (simp add: load_profile_available update_entries_spec spec_update_def update_user_spec)

text \<open>The account exposes \<open>email\<close>, the profile \<open>phone\<close>, nothing exposes
  \<open>nothing\<close>, and the attribute \<open>x\<close> is not in the bag.\<close>

theorem update_user_fields_witness:
  "bag_ok [(''uid'', [''bob'']), (''tel'', [''2'']), (''mail'', [''new''])] \<and>
   [(''uid'', [''username'']), (''tel'', [''phone'', ''nothing'']), (''mail'', [''email'']),
    (''x'', [''email''])] \<noteq> [] \<and>
   update_user \<lparr>pk = 1, attrs = [(''username'', ''bob''), (''email'', ''b@x'')]\<rparr>
     [(''uid'', [''bob'']), (''tel'', [''2'']), (''mail'', [''new''])]
     [(''uid'', [''username'']), (''tel'', [''phone'', ''nothing'']), (''mail'', [''email'']),
      (''x'', [''email''])] False
     \<lparr>user_table = [\<lparr>pk = 1, attrs = [(''username'', ''bob''), (''email'', ''b@x'')]\<rparr>],
      profile_table = [\<lparr>user_id = 1, pattrs = [(''phone'', ''1'')]\<rparr>],
      profile_module = True, new_user_fields = [], events = []\<rparr>
   = (Inr \<lparr>pk = 1, attrs = [(''username'', ''bob''), (''email'', ''new'')]\<rparr>,
      \<lparr>user_table = [\<lparr>pk = 1, attrs = [(''username'', ''bob''), (''email'', ''new'')]\<rparr>],
       profile_table = [\<lparr>user_id = 1, pattrs = [(''phone'', ''2'')]\<rparr>],
       profile_module = True, new_user_fields = [],
       events = [SaveUser \<lparr>pk = 1, attrs = [(''username'', ''bob''), (''email'', ''new'')]\<rparr>,
                 SaveProfile \<lparr>user_id = 1, pattrs = [(''phone'', ''2'')]\<rparr>]\<rparr>)"
proof -
  have h1: "bag_ok [(''uid'', [''bob'']), (''tel'', [''2'']), (''mail'', [''new''])]"
    by (simp add: bag_ok_def)
  have h2: "[(''uid'', [''username'']), (''tel'', [''phone'', ''nothing'']),
             (''mail'', [''email'']), (''x'', [''email''])] \<noteq> []"
    by simp
  from update_user_fields [OF h1 h2,
      of "\<lparr>pk = 1, attrs = [(''username'', ''bob''), (''email'', ''b@x'')]\<rparr>"
         "\<lparr>user_table = [\<lparr>pk = 1, attrs = [(''username'', ''bob''), (''email'', ''b@x'')]\<rparr>],
           profile_table = [\<lparr>user_id = 1, pattrs = [(''phone'', ''1'')]\<rparr>],
           profile_module = True, new_user_fields = [], events = []\<rparr>"
         None False]
  show ?thesis
    using h1
    by (simp add: available_profile_def spec_update_def spec_entry_def spec_set_field_def
          initial_def hasattr_def contains_def setattr_def save_modified_def save_user_def
          save_profile_def)
qed

subsection \<open>C4: when update\_user saves the account\<close>

text \<open>
  C4, as stated, fails: the account below has the e-mail address that the bag carries,
  so the only mapped field is set to the value it already has, and the account is
  saved all the same, without a forced save.
\<close>

theorem update_user_saves_equal_value:
  "update_user \<lparr>pk = 1, attrs = [(''email'', ''a@x'')]\<rparr>
      [(''mail'', [''a@x''])] [(''mail'', [''email''])] False
      \<lparr>user_table = [\<lparr>pk = 1, attrs = [(''email'', ''a@x'')]\<rparr>], profile_table = [],
       profile_module = False, new_user_fields = [], events = []\<rparr>
   = (Inr \<lparr>pk = 1, attrs = [(''email'', ''a@x'')]\<rparr>,
      \<lparr>user_table = [\<lparr>pk = 1, attrs = [(''email'', ''a@x'')]\<rparr>], profile_table = [],
       profile_module = False, new_user_fields = [],
       events = [SaveUser \<lparr>pk = 1, attrs = [(''email'', ''a@x'')]\<rparr>]\<rparr>)"
  by (simp add: update_user_def load_profile_def get_profile_def initial_def hasattr_def
        contains_def first_value_def getitem_def index0_def setattr_def save_modified_def
        save_user_def)

text \<open>
  C4, amended. \<^verbatim>\<open>update_user\<close> calls \<^verbatim>\<open>save()\<close> on the account at most once, and
  exactly when it returns normally on a non-empty mapping and either the save is forced
  or the mapping assigns a field of the account: some entry whose attribute is in the
  bag names a field that the account exposes. Whether the value assigned differs from
  the value stored plays no part.
\<close>

theorem update_user_saves_iff:
  "saved_users (events (snd (update_user usr attributes am force w))) =
     saved_users (events w) @
       (case fst (update_user usr attributes am force w) of
          Inl e \<Rightarrow> []
        | Inr usr' \<Rightarrow>
            if am \<noteq> [] \<and> (force \<or> assigns_user usr am attributes) then [usr'] else [])"
proof (cases "am = []")
  case True
  then show ?thesis by (simp add: update_user_def)
next
  case False
  from update_user_cases [OF False, of usr attributes force w] False show ?thesis
    by (auto simp: saved_users_save_modified user_modified_spec_update)
qed

text \<open>The mapping names a field the account does not expose: nothing is assigned,
  and nothing is saved.\<close>

theorem update_user_saves_iff_witness:
  "\<not> assigns_user \<lparr>pk = 1, attrs = [(''email'', ''a@x'')]\<rparr>
       [(''mail'', [''phone''])] [(''mail'', [''b@x''])] \<and>
   saved_users (events (snd (update_user \<lparr>pk = 1, attrs = [(''email'', ''a@x'')]\<rparr>
      [(''mail'', [''b@x''])] [(''mail'', [''phone''])] False
      \<lparr>user_table = [], profile_table = [],
       profile_module = False, new_user_fields = [], events = []\<rparr>)))
   = []"
  using update_user_saves_iff [of "\<lparr>pk = 1, attrs = [(''email'', ''a@x'')]\<rparr>"
      "[(''mail'', [''b@x''])]" "[(''mail'', [''phone''])]" False
      "\<lparr>user_table = [], profile_table = [],
       profile_module = False, new_user_fields = [], events = []\<rparr>"]
  by (simp add: update_user_def load_profile_def get_profile_def initial_def hasattr_def
        contains_def first_value_def getitem_def index0_def setattr_def save_modified_def
        save_user_def assigns_user_def)

subsection \<open>C5: configure\_user\<close>

text \<open>
  C5, as stated, fails for the empty mapping: \<^verbatim>\<open>update_user\<close> returns before it
  looks at the force-save flag, so the account is marked and returned, and nothing is
  saved.
\<close>

theorem configure_user_empty_mapping:
  "configure_user \<lparr>pk = 1, attrs = [(''username'', ''alice''), (''password'', ''pw'')]\<rparr>
      [(''uid'', [''alice''])] []
      \<lparr>user_table = [\<lparr>pk = 1, attrs = [(''username'', ''alice''), (''password'', ''pw'')]\<rparr>],
       profile_table = [], profile_module = False, new_user_fields = [], events = []\<rparr>
   = (Inr \<lparr>pk = 1, attrs = [(''username'', ''alice''), (''password'', ''!'')]\<rparr>,
      \<lparr>user_table = [\<lparr>pk = 1, attrs = [(''username'', ''alice''), (''password'', ''pw'')]\<rparr>],
       profile_table = [], profile_module = False, new_user_fields = [], events = []\<rparr>)"
  by (simp add: configure_user_def update_user_def set_unusable_password_def setattr_def
        UNUSABLE_PASSWORD_def)

text \<open>
  C5, amended. \<^verbatim>\<open>configure_user\<close> marks the credential of the account as unusable
  and delegates to \<^verbatim>\<open>update_user\<close> with the force-save flag. For a non-empty
  mapping, on a bag that meets the data model, the account it returns is saved, whether
  or not a mapped attribute changed, and it carries the marker unless the mapping itself
  names the password field. For the empty mapping the marked account is returned and
  the world is as it was.
\<close>

theorem configure_user_saves:
  "configure_user usr attributes am w =
     update_user (set_unusable_password usr) attributes am True w \<and>
   map_of (attrs (set_unusable_password usr)) ''password'' = Some UNUSABLE_PASSWORD \<and>
   (am \<noteq> [] \<and> bag_ok attributes \<longrightarrow>
      (\<exists>usr' w'. configure_user usr attributes am w = (Inr usr', w') \<and>
                  saved_users (events w') = saved_users (events w) @ [usr'] \<and>
                  (\<not> list_ex (\<lambda>entry. ''password'' \<in> set (snd entry)) am \<longrightarrow>
                     map_of (attrs usr') ''password'' = Some UNUSABLE_PASSWORD))) \<and>
   configure_user usr attributes [] w = (Inr (set_unusable_password usr), w)"
proof -
  have marked: "map_of (attrs (set_unusable_password usr)) ''password'' = Some UNUSABLE_PASSWORD"
    by (simp add: set_unusable_password_def setattr_def update_conv')
  have saved: "\<exists>usr' w'. configure_user usr attributes am w = (Inr usr', w') \<and>
                  saved_users (events w') = saved_users (events w) @ [usr'] \<and>
                  (\<not> list_ex (\<lambda>entry. ''password'' \<in> set (snd entry)) am \<longrightarrow>
                     map_of (attrs usr') ''password'' = Some UNUSABLE_PASSWORD)"
    if "am \<noteq> []" "bag_ok attributes"
    using update_user_spec [OF that(2,1), of "set_unusable_password usr" True w] marked
    by (simp add: configure_user_def saved_users_save_modified spec_update_other_attr)
  show ?thesis
    using marked saved by (simp add: configure_user_def update_user_def)
qed

text \<open>The mapping names a field the new account does not expose: no attribute
  changes, and the marked account is saved.\<close>

theorem configure_user_saves_witness:
  "[(''uid'', [''phone''])] \<noteq> [] \<and> bag_ok [(''uid'', [''alice''])] \<and>
   \<not> list_ex (\<lambda>entry. ''password'' \<in> set (snd entry)) [(''uid'', [''phone''])] \<and>
   configure_user \<lparr>pk = 1, attrs = [(''username'', ''alice''), (''password'', ''pw'')]\<rparr>
      [(''uid'', [''alice''])] [(''uid'', [''phone''])]
      \<lparr>user_table = [\<lparr>pk = 1, attrs = [(''username'', ''alice''), (''password'', ''pw'')]\<rparr>],
       profile_table = [], profile_module = False, new_user_fields = [], events = []\<rparr>
   = (Inr \<lparr>pk = 1, attrs = [(''username'', ''alice''), (''password'', ''!'')]\<rparr>,
      \<lparr>user_table = [\<lparr>pk = 1, attrs = [(''username'', ''alice''), (''password'', ''!'')]\<rparr>],
       profile_table = [], profile_module = False, new_user_fields = [],
       events = [SaveUser \<lparr>pk = 1, attrs = [(''username'', ''alice''),
                                              (''password'', ''!'')]\<rparr>]\<rparr>)"
  using configure_user_saves [of
      "\<lparr>pk = 1, attrs = [(''username'', ''alice''), (''password'', ''pw'')]\<rparr>"
      "[(''uid'', [''alice''])]" "[(''uid'', [''phone''])]"
      "\<lparr>user_table = [\<lparr>pk = 1, attrs = [(''username'', ''alice''), (''password'', ''pw'')]\<rparr>],
        profile_table = [], profile_module = False, new_user_fields = [], events = []\<rparr>"]
  by (simp add: bag_ok_def update_user_def load_profile_def get_profile_def initial_def
        hasattr_def contains_def set_unusable_password_def UNUSABLE_PASSWORD_def setattr_def
        save_modified_def save_user_def)

subsection \<open>C6: looking up known users only\<close>

text \<open>
  C6. When a user name is extracted and unknown users are not created,
  \<^verbatim>\<open>authenticate\<close> looks the account up by the cleaned user name. If there is none
  it returns no account and raises nothing; if there is one it calls
  \<^verbatim>\<open>update_user\<close> on it and returns what that call returns, which on a bag that
  meets the data model is an account.
\<close>

theorem authenticate_lookup:
  assumes "map_of si ''ava'' = Some attributes"
    and "find_saml_user am attributes None = Inr (Some saml_user)"
  shows "(objects_get (clean_username saml_user) w = Inl UserDoesNotExist \<longrightarrow>
            authenticate (Some si) (Some am) False w =
              (Inr None,
               log_error (''The user '' @ [CHR 0x22] @ clean_username saml_user @ [CHR 0x22]
                          @ '' does not exist'')
                 (log_debug (''Retrieving existing user '' @ [CHR 0x22]
                             @ clean_username saml_user @ [CHR 0x22]) w))) \<and>
         (\<forall>usr. objects_get (clean_username saml_user) w = Inr usr \<longrightarrow>
            authenticate (Some si) (Some am) False w =
              returning (update_user usr attributes am False
                 (log_debug (''Retrieving existing user '' @ [CHR 0x22]
                             @ clean_username saml_user @ [CHR 0x22]) w)) \<and>
            (bag_ok attributes \<longrightarrow>
               (\<exists>usr' w'. authenticate (Some si) (Some am) False w = (Inr (Some usr'), w'))))"
proof -
  have ne: "attributes \<noteq> []"
    using assms(2) by (auto simp: find_saml_user_empty_bag)
  have eq: "authenticate (Some si) (Some am) False w =
              resolve_user (clean_username saml_user) attributes am False w"
    by (simp add: authenticate_ava [OF assms(1)] assms(2) ne)
  have absent: "objects_get (clean_username saml_user) w = Inl UserDoesNotExist \<Longrightarrow>
      resolve_user (clean_username saml_user) attributes am False w =
              (Inr None,
               log_error (''The user '' @ [CHR 0x22] @ clean_username saml_user @ [CHR 0x22]
                          @ '' does not exist'')
                 (log_debug (''Retrieving existing user '' @ [CHR 0x22]
                             @ clean_username saml_user @ [CHR 0x22]) w))"
    by (simp add: resolve_user_def Let_def)
  have present: "resolve_user (clean_username saml_user) attributes am False w =
              returning (update_user usr attributes am False
                 (log_debug (''Retrieving existing user '' @ [CHR 0x22]
                             @ clean_username saml_user @ [CHR 0x22]) w))"
    if "objects_get (clean_username saml_user) w = Inr usr" for usr
  proof -
    obtain r w2 where u: "update_user usr attributes am False
                 (log_debug (''Retrieving existing user '' @ [CHR 0x22]
                             @ clean_username saml_user @ [CHR 0x22]) w) = (r, w2)"
      by (metis surj_pair)
    show ?thesis
      using that u update_user_raises [of usr attributes am False _ _ w2]
      by (cases r) (auto simp: resolve_user_def Let_def returning_def)
  qed
  have total: "\<exists>usr' w'. returning (update_user usr attributes am False w0) = (Inr (Some usr'), w')"
    if "bag_ok attributes" for usr w0
    using update_user_total [OF that, of usr am False w0] by (auto simp: returning_def)
  show ?thesis
    using absent present total by (simp add: eq)
qed

text \<open>The same request against a table without the account and against a table
  with it.\<close>

theorem authenticate_lookup_witness:
  "map_of [(''ava'', [(''uid'', [''bob'']), (''mail'', [''new''])])] ''ava''
     = Some [(''uid'', [''bob'']), (''mail'', [''new''])] \<and>
   find_saml_user [(''uid'', [''username'']), (''mail'', [''email''])]
     [(''uid'', [''bob'']), (''mail'', [''new''])] None = Inr (Some ''bob'') \<and>
   bag_ok [(''uid'', [''bob'']), (''mail'', [''new''])] \<and>
   objects_get (clean_username ''bob'')
     \<lparr>user_table = [], profile_table = [], profile_module = False,
      new_user_fields = [], events = []\<rparr> = Inl UserDoesNotExist \<and>
   fst (authenticate (Some [(''ava'', [(''uid'', [''bob'']), (''mail'', [''new''])])])
          (Some [(''uid'', [''username'']), (''mail'', [''email''])]) False
          \<lparr>user_table = [], profile_table = [], profile_module = False,
           new_user_fields = [], events = []\<rparr>) = Inr None \<and>
   objects_get (clean_username ''bob'')
     \<lparr>user_table = [\<lparr>pk = 1, attrs = [(''username'', ''bob''), (''email'', ''b@x'')]\<rparr>],
      profile_table = [], profile_module = False, new_user_fields = [], events = []\<rparr>
     = Inr \<lparr>pk = 1, attrs = [(''username'', ''bob''), (''email'', ''b@x'')]\<rparr> \<and>
   fst (authenticate (Some [(''ava'', [(''uid'', [''bob'']), (''mail'', [''new''])])])
          (Some [(''uid'', [''username'']), (''mail'', [''email''])]) False
          \<lparr>user_table = [\<lparr>pk = 1, attrs = [(''username'', ''bob''), (''email'', ''b@x'')]\<rparr>],
           profile_table = [], profile_module = False, new_user_fields = [], events = []\<rparr>)
     = Inr (Some \<lparr>pk = 1, attrs = [(''username'', ''bob''), (''email'', ''new'')]\<rparr>)"
proof -
  have h1: "map_of [(''ava'', [(''uid'', [''bob'']), (''mail'', [''new''])])] ''ava''
     = Some [(''uid'', [''bob'']), (''mail'', [''new''])]"
    by simp
  have h2: "find_saml_user [(''uid'', [''username'']), (''mail'', [''email''])]
     [(''uid'', [''bob'']), (''mail'', [''new''])] None = Inr (Some ''bob'')"
    by (simp add: contains_def first_value_def getitem_def index0_def)
  have h3: "bag_ok [(''uid'', [''bob'']), (''mail'', [''new''])]"
    by (simp add: bag_ok_def)
  have absent: "objects_get (clean_username ''bob'')
     \<lparr>user_table = [], profile_table = [], profile_module = False,
      new_user_fields = [], events = []\<rparr> = Inl UserDoesNotExist"
    by (simp add: objects_get_def)
  have present: "objects_get (clean_username ''bob'')
     \<lparr>user_table = [\<lparr>pk = 1, attrs = [(''username'', ''bob''), (''email'', ''b@x'')]\<rparr>],
      profile_table = [], profile_module = False, new_user_fields = [], events = []\<rparr>
     = Inr \<lparr>pk = 1, attrs = [(''username'', ''bob''), (''email'', ''b@x'')]\<rparr>"
    by (simp add: objects_get_def clean_username_def has_username_def)
  from authenticate_lookup [OF h1 h2,
      of "\<lparr>user_table = [], profile_table = [], profile_module = False,
           new_user_fields = [], events = []\<rparr>"] absent
  have a: "fst (authenticate (Some [(''ava'', [(''uid'', [''bob'']), (''mail'', [''new''])])])
          (Some [(''uid'', [''username'']), (''mail'', [''email''])]) False
          \<lparr>user_table = [], profile_table = [], profile_module = False,
           new_user_fields = [], events = []\<rparr>) = Inr None"
    by simp
  from authenticate_lookup [OF h1 h2,
      of "\<lparr>user_table = [\<lparr>pk = 1, attrs = [(''username'', ''bob''), (''email'', ''b@x'')]\<rparr>],
           profile_table = [], profile_module = False, new_user_fields = [], events = []\<rparr>"]
    present
  have p: "fst (authenticate (Some [(''ava'', [(''uid'', [''bob'']), (''mail'', [''new''])])])
          (Some [(''uid'', [''username'']), (''mail'', [''email''])]) False
          \<lparr>user_table = [\<lparr>pk = 1, attrs = [(''username'', ''bob''), (''email'', ''b@x'')]\<rparr>],
           profile_table = [], profile_module = False, new_user_fields = [], events = []\<rparr>)
     = Inr (Some \<lparr>pk = 1, attrs = [(''username'', ''bob''), (''email'', ''new'')]\<rparr>)"
    by (simp add: returning_def log_debug_def update_user_def load_profile_def
          get_profile_def initial_def hasattr_def contains_def first_value_def getitem_def
          index0_def setattr_def save_modified_def save_user_def)
  from h1 h2 h3 absent present a p show ?thesis by blast
qed

subsection \<open>C7: the failures of authenticate\<close>

text \<open>
  C7. \<^verbatim>\<open>authenticate\<close> returns no account, and raises nothing, when the session
  information is absent, when the attribute mapping is absent, when the session
  information has no \<open>ava\<close> key, and when no mapping entry names the field
  \<open>username\<close> with an attribute that is in the bag. Each failure is logged.
\<close>

theorem authenticate_no_account:
  "authenticate None attribute_mapping create w =
     (Inr None, log_error ''Session info or attribute mapping are None'' w) \<and>
   authenticate session_info None create w =
     (Inr None, log_error ''Session info or attribute mapping are None'' w) \<and>
   (\<not> contains si ''ava'' \<longrightarrow>
      authenticate (Some si) (Some am) create w =
        (Inr None,
         log_error ([CHR 0x22] @ ''ava'' @ [CHR 0x22] @ '' key not found in session_info'') w)) \<and>
   (map_of si' ''ava'' = Some attributes \<and> filter (qualifies attributes) am = [] \<longrightarrow>
      authenticate (Some si') (Some am) create w =
        (Inr None,
         log_error ''Could not find saml_user value''
           (if attributes = []
            then log_error ''The attributes dictionary is empty'' w else w)))"
proof -
  have a: "authenticate None attribute_mapping create w =
     (Inr None, log_error ''Session info or attribute mapping are None'' w)"
    by (simp add: authenticate_def)
  have b: "authenticate session_info None create w =
     (Inr None, log_error ''Session info or attribute mapping are None'' w)"
    by (simp add: authenticate_def split: option.splits)
  have c: "authenticate (Some si) (Some am) create w =
        (Inr None,
         log_error ([CHR 0x22] @ ''ava'' @ [CHR 0x22] @ '' key not found in session_info'') w)"
    if "\<not> contains si ''ava''"
    using that by (simp add: authenticate_def)
  have d: "authenticate (Some si') (Some am) create w =
        (Inr None,
         log_error ''Could not find saml_user value''
           (if attributes = []
            then log_error ''The attributes dictionary is empty'' w else w))"
    if "map_of si' ''ava'' = Some attributes" "filter (qualifies attributes) am = []"
    using that by (simp add: authenticate_ava find_saml_user_unqualified)
  from a b c d show ?thesis by blast
qed

text \<open>A session information without \<open>ava\<close>, and one whose bag lacks the only
  attribute that the mapping reads the user name from.\<close>

theorem authenticate_no_account_witness:
  "\<not> contains [(''issuer'', [])] ''ava'' \<and>
   fst (authenticate (Some [(''issuer'', [])]) (Some [(''uid'', [''username''])]) True
          \<lparr>user_table = [], profile_table = [], profile_module = False,
           new_user_fields = [], events = []\<rparr>) = Inr None \<and>
   map_of [(''ava'', [(''mail'', [''a@x''])])] ''ava'' = Some [(''mail'', [''a@x''])] \<and>
   filter (qualifies [(''mail'', [''a@x''])]) [(''uid'', [''username''])] = [] \<and>
   fst (authenticate (Some [(''ava'', [(''mail'', [''a@x''])])])
          (Some [(''uid'', [''username''])]) True
          \<lparr>user_table = [], profile_table = [], profile_module = False,
           new_user_fields = [], events = []\<rparr>) = Inr None"
  using authenticate_no_account [of None True
      "\<lparr>user_table = [], profile_table = [], profile_module = False,
        new_user_fields = [], events = []\<rparr>"
      None "[(''issuer'', [])]" "[(''uid'', [''username''])]"
      "[(''ava'', [(''mail'', [''a@x''])])]" "[(''mail'', [''a@x''])]"]
  by (simp add: contains_def qualifies_def)

subsection \<open>C8: update\_user with the empty mapping\<close>

text \<open>
  C8. With the empty mapping \<^verbatim>\<open>update_user\<close> returns the account it was given and
  leaves the world as it was, whatever the force-save flag: no field of the account or
  of a profile is set and nothing is saved.
\<close>

theorem update_user_empty_mapping:
  "update_user usr attributes [] force w = (Inr usr, w)"
  by (simp add: update_user_def)

subsection \<open>C9: the empty bag\<close>

text \<open>
  C9. With an empty bag \<^verbatim>\<open>authenticate\<close> logs that the attributes are empty and goes
  on to look for the user name, finds none, logs that and returns no account. This is
  what happens on the bag \<open>{}\<close> with the mapping of \<open>email\<close> to \<open>username\<close>.
\<close>

theorem authenticate_empty_bag:
  "(map_of si ''ava'' = Some [] \<longrightarrow>
      authenticate (Some si) (Some am) create w =
        (Inr None,
         log_error ''Could not find saml_user value''
           (log_error ''The attributes dictionary is empty'' w))) \<and>
   authenticate (Some [(''ava'', [])]) (Some [(''email'', [''username''])]) True w =
     (Inr None,
      log_error ''Could not find saml_user value''
        (log_error ''The attributes dictionary is empty'' w))"
  by (simp add: authenticate_ava find_saml_user_empty_bag)

theorem authenticate_empty_bag_witness:
  "map_of [(''ava'', [])] ''ava'' = Some [] \<and>
   authenticate (Some [(''ava'', [])]) (Some [(''uid'', [''username'']), (''mail'', [''email''])])
     False
     \<lparr>user_table = [], profile_table = [], profile_module = False,
      new_user_fields = [], events = []\<rparr>
   = (Inr None,
      \<lparr>user_table = [], profile_table = [], profile_module = False, new_user_fields = [],
       events = [LogError ''The attributes dictionary is empty'',
                 LogError ''Could not find saml_user value'']\<rparr>)"
  using authenticate_empty_bag [of "[(''ava'', [])]"
      "[(''uid'', [''username'']), (''mail'', [''email''])]" False
      "\<lparr>user_table = [], profile_table = [], profile_module = False,
        new_user_fields = [], events = []\<rparr>"]
  by (simp add: log_error_def)

subsection \<open>C10: an attribute without values\<close>

text \<open>
  C10. When an attribute of the bag has the empty list of values, taking its first value
  raises IndexError, which nothing catches: \<^verbatim>\<open>authenticate\<close> raises it when a
  mapping entry for that attribute names \<open>username\<close>, and \<^verbatim>\<open>update_user\<close> raises
  it, before any save, when a mapping entry for that attribute names a field that the
  account or the available profile exposes. A mapping entry whose attribute is missing
  from the bag is passed over instead.
\<close>

theorem empty_value_list_raises:
  "(map_of si ''ava'' = Some attributes \<and> (k, fs) \<in> set am \<and> ''username'' \<in> set fs \<and>
    map_of attributes k = Some [] \<longrightarrow>
      fst (authenticate (Some si) (Some am) create w) = Inl IndexError) \<and>
   ((k, fs) \<in> set am \<and> map_of attributes k = Some [] \<and>
    list_ex (exposes (initial usr (available_profile usr w))) fs \<longrightarrow>
      update_user usr attributes am force w = (Inl IndexError, w)) \<and>
   (map_of attributes k' = None \<longrightarrow>
      update_entries ((k', fs') # am) attributes st = update_entries am attributes st)"
proof -
  have a: "fst (authenticate (Some si) (Some am) create w) = Inl IndexError"
    if "map_of si ''ava'' = Some attributes" "(k, fs) \<in> set am" "''username'' \<in> set fs"
       "map_of attributes k = Some []"
    using that by (simp add: authenticate_ava find_saml_user_IndexError)
  have b: "update_user usr attributes am force w = (Inl IndexError, w)"
    if "(k, fs) \<in> set am" "map_of attributes k = Some []"
       "list_ex (exposes (initial usr (available_profile usr w))) fs"
  proof -
    from that(1) have "am \<noteq> []" by auto
    with update_entries_IndexError [OF that] show ?thesis
      by (simp add: update_user_def load_profile_available)
  qed
  have c: "update_entries ((k', fs') # am) attributes st = update_entries am attributes st"
    if "map_of attributes k' = None"
    using that by (simp add: update_attrs_None)
  from a b c show ?thesis by blast
qed

text \<open>The attribute \<open>uid\<close> is in the bag without a value; \<open>mail\<close> is not in
  the bag.\<close>

theorem empty_value_list_raises_witness:
  "map_of [(''ava'', [(''uid'', [])])] ''ava'' = Some [(''uid'', [])] \<and>
   (''uid'', [''username'']) \<in> set [(''uid'', [''username''])] \<and>
   ''username'' \<in> set [''username''] \<and>
   map_of [(''uid'', [])] ''uid'' = Some [] \<and>
   fst (authenticate (Some [(''ava'', [(''uid'', [])])]) (Some [(''uid'', [''username''])]) True
          \<lparr>user_table = [], profile_table = [], profile_module = False,
           new_user_fields = [], events = []\<rparr>) = Inl IndexError \<and>
   list_ex (exposes (initial \<lparr>pk = 1, attrs = [(''username'', ''bob'')]\<rparr>
              (available_profile \<lparr>pk = 1, attrs = [(''username'', ''bob'')]\<rparr>
                 \<lparr>user_table = [], profile_table = [], profile_module = False,
                  new_user_fields = [], events = []\<rparr>))) [''username''] \<and>
   update_user \<lparr>pk = 1, attrs = [(''username'', ''bob'')]\<rparr> [(''uid'', [])]
     [(''uid'', [''username''])] True
     \<lparr>user_table = [], profile_table = [], profile_module = False,
      new_user_fields = [], events = []\<rparr>
   = (Inl IndexError,
      \<lparr>user_table = [], profile_table = [], profile_module = False,
       new_user_fields = [], events = []\<rparr>) \<and>
   map_of [(''uid'', [])] ''mail'' = None \<and>
   update_entries ((''mail'', [''username'']) # [(''uid'', [''username''])]) [(''uid'', [])]
     (initial \<lparr>pk = 1, attrs = [(''username'', ''bob'')]\<rparr> None)
   = update_entries [(''uid'', [''username''])] [(''uid'', [])]
       (initial \<lparr>pk = 1, attrs = [(''username'', ''bob'')]\<rparr> None)"
  using empty_value_list_raises [of "[(''ava'', [(''uid'', [])])]" "[(''uid'', [])]"
      "''uid''" "[''username'']" "[(''uid'', [''username''])]" True
      "\<lparr>user_table = [], profile_table = [], profile_module = False,
        new_user_fields = [], events = []\<rparr>"
      "\<lparr>pk = 1, attrs = [(''username'', ''bob'')]\<rparr>" True
      "''mail''" "[''username'']" "initial \<lparr>pk = 1, attrs = [(''username'', ''bob'')]\<rparr> None"]
  by (simp add: exposes_def initial_def available_profile_def hasattr_def contains_def)

end
